theory Spec2Isabelle
  imports Complex_Main "HOL-Library.Char_ord" "HOL-Library.List_Lexorder" "HOL-Library.Sublist"
begin

section \<open>Data model\<close>

text \<open>
  One row of \<^verbatim>\<open>all_dataset.csv\<close> after \<^verbatim>\<open>load_data\<close>. The field names are the
  column names the dashboard reads. Identifiers, categories, states, statuses and
  payment types are strings. The purchase timestamp is the parsed instant, counted in
  nanoseconds since the epoch (the resolution of a pandas timestamp). Payment values and
  delivery times are numbers; they are modelled as exact rationals, so rounding of
  binary floating point is outside the model. Every cell of a row is present: missing
  cells of the file are outside the model.
\<close>

record order_row =
  order_id :: string
  customer_id :: string
  order_purchase_timestamp :: int
  payment_value :: rat
  product_category_name_english :: string
  customer_state :: string
  delivery_time :: rat
  order_status :: string
  payment_type :: string

type_synonym dataframe = "order_row list"

text \<open>
  A floating-point result of an aggregation: \<open>None\<close> is NaN (pandas' value for the mean of
  no rows, for the maximum of no values, and for a label that one operand of an aligned
  division lacks).
\<close>

type_synonym float = "rat option"

datatype error = IndexError

section \<open>Filter layer (lines 47-49)\<close>

definition ns_per_day :: int where
  "ns_per_day = 86400 * 1000000000"

text \<open>\<^verbatim>\<open>.dt.date\<close>: the calendar day of an instant, as a day number since the epoch.\<close>

definition dt_date :: "int \<Rightarrow> int" where
  "dt_date t = t div ns_per_day"

text \<open>
  \<^verbatim>\<open>mask = (date >= date_range[0]) & (date <= date_range[1])\<close>, one boolean per row.
\<close>

definition date_mask :: "int \<Rightarrow> int \<Rightarrow> dataframe \<Rightarrow> bool list" where
  "date_mask lo hi all_df =
     map (\<lambda>r. dt_date (order_purchase_timestamp r) \<ge> lo \<and>
               dt_date (order_purchase_timestamp r) \<le> hi) all_df"

text \<open>\<^verbatim>\<open>all_df[mask]\<close>: the rows whose mask entry is true, in their order.\<close>

definition boolean_index :: "'a list \<Rightarrow> bool list \<Rightarrow> 'a list" where
  "boolean_index df bs = map fst (filter snd (zip df bs))"

text \<open>
  The date widget returns a tuple; \<^verbatim>\<open>date_range[0]\<close> and \<^verbatim>\<open>date_range[1]\<close> raise
  IndexError on a tuple of fewer than two dates.
\<close>

definition filtered_df :: "int list \<Rightarrow> dataframe \<Rightarrow> error + dataframe" where
  "filtered_df date_range all_df =
     (case date_range of
        lo # hi # _ \<Rightarrow> Inr (boolean_index all_df (date_mask lo hi all_df))
      | _ \<Rightarrow> Inl IndexError)"

section \<open>Metrics panel (lines 52-60)\<close>

text \<open>
  The panel shows four values of the filtered subset. The model has the values; their
  formatting as text (thousands separators, two decimals, where NaN prints as \<^verbatim>\<open>nan\<close>)
  is not modelled.
\<close>

text \<open>\<^verbatim>\<open>Series.unique()\<close>: the distinct values in order of first appearance.\<close>

fun unique :: "'a list \<Rightarrow> 'a list" where
  "unique [] = []"
| "unique (x # xs) = x # unique (filter (\<lambda>y. y \<noteq> x) xs)"

text \<open>\<^verbatim>\<open>Series.sum()\<close>: the sum of the values, 0 for no values.\<close>

definition series_sum :: "rat list \<Rightarrow> rat" where
  "series_sum vs = sum_list vs"

text \<open>\<^verbatim>\<open>Series.mean()\<close>: NaN for no values, else the sum over the count.\<close>

definition series_mean :: "rat list \<Rightarrow> float" where
  "series_mean vs = (if vs = [] then None else Some (sum_list vs / of_nat (length vs)))"

definition total_orders :: "dataframe \<Rightarrow> nat" where
  "total_orders df = length (unique (map order_id df))"

definition total_revenue :: "dataframe \<Rightarrow> rat" where
  "total_revenue df = series_sum (map payment_value df)"

definition unique_customers :: "dataframe \<Rightarrow> nat" where
  "unique_customers df = length (unique (map customer_id df))"

definition average_order_value :: "dataframe \<Rightarrow> float" where
  "average_order_value df = series_mean (map payment_value df)"

section \<open>Library operations the views use\<close>

text \<open>
  \<^verbatim>\<open>groupby(key)\<close> with the default \<^verbatim>\<open>sort=True\<close>: one group per distinct key, the keys
  in ascending order, each group holding its rows in their order.
\<close>

definition groupby :: "('a \<Rightarrow> 'k::linorder) \<Rightarrow> 'a list \<Rightarrow> ('k \<times> 'a list) list" where
  "groupby key df = map (\<lambda>k. (k, filter (\<lambda>r. key r = k) df)) (sort (unique (map key df)))"

text \<open>\<^verbatim>\<open>groupby(key).size()\<close>: the number of rows of each group.\<close>

definition group_sizes :: "('a \<Rightarrow> 'k::linorder) \<Rightarrow> 'a list \<Rightarrow> ('k \<times> nat) list" where
  "group_sizes key df = map (\<lambda>(k, rows). (k, length rows)) (groupby key df)"

text \<open>
  \<^verbatim>\<open>nsmallest(n, column)\<close> and \<^verbatim>\<open>nlargest(n)\<close> with the default \<^verbatim>\<open>keep='first'\<close>: the rows
  without NaN in a stable order by the key (ascending, or ascending by the negated key
  for the largest), then the rows with NaN, cut to \<open>n\<close> rows. \<open>sort_key\<close> is the stable
  insertion sort of the list library.
\<close>

definition nsmallest_by :: "nat \<Rightarrow> ('a \<Rightarrow> 'v::linorder option) \<Rightarrow> 'a list \<Rightarrow> 'a list" where
  "nsmallest_by n key xs =
     take n (sort_key (\<lambda>x. the (key x)) (filter (\<lambda>x. key x \<noteq> None) xs)
             @ filter (\<lambda>x. key x = None) xs)"

definition nlargest_by ::
  "nat \<Rightarrow> ('a \<Rightarrow> 'v::{linorder, uminus} option) \<Rightarrow> 'a list \<Rightarrow> 'a list" where
  "nlargest_by n key xs =
     take n (sort_key (\<lambda>x. - the (key x)) (filter (\<lambda>x. key x \<noteq> None) xs)
             @ filter (\<lambda>x. key x = None) xs)"

text \<open>
  \<^verbatim>\<open>Series.value_counts()\<close>: the number of occurrences of each distinct value, largest
  count first. Values with the same count are kept in order of first appearance; no
  result below depends on their order.
\<close>

definition value_counts :: "'k list \<Rightarrow> ('k \<times> nat) list" where
  "value_counts vs =
     sort_key (\<lambda>(k, c). - int c) (map (\<lambda>k. (k, count_list vs k)) (unique vs))"

text \<open>
  The maximum of a column, skipping NaN; NaN (for timestamps NaT) when nothing is left.
\<close>

definition series_max :: "('v::linorder) option list \<Rightarrow> 'v option" where
  "series_max vs = (case List.map_filter id vs of [] \<Rightarrow> None | x # xs \<Rightarrow> Some (fold max xs x))"

text \<open>
  Division of two integer series: the labels are aligned on the union of the two
  indexes, and a label that one side lacks gets NaN. A zero divisor (infinity or NaN in
  pandas) is given NaN here.
\<close>

definition index_union :: "('k::linorder) list \<Rightarrow> 'k list \<Rightarrow> 'k list" where
  "index_union a b = (if a = b then a else sort (unique (a @ b)))"

definition float_div :: "rat \<Rightarrow> rat \<Rightarrow> float" where
  "float_div x y = (if y = 0 then None else Some (x / y))"

definition series_truediv ::
  "(('k::linorder) \<times> nat) list \<Rightarrow> ('k \<times> nat) list \<Rightarrow> ('k \<times> float) list" where
  "series_truediv a b =
     map (\<lambda>k. (k, case (map_of a k, map_of b k) of
                     (Some x, Some y) \<Rightarrow> float_div (of_nat x) (of_nat y)
                   | _ \<Rightarrow> None))
         (index_union (map fst a) (map fst b))"

definition series_mul :: "('k \<times> float) list \<Rightarrow> rat \<Rightarrow> ('k \<times> float) list" where
  "series_mul s c = map (\<lambda>(k, v). (k, map_option (\<lambda>x. x * c) v)) s"

text \<open>Python's \<^verbatim>\<open>==\<close> on two floats: NaN equals nothing, not even NaN.\<close>

definition float_eq :: "float \<Rightarrow> float \<Rightarrow> bool" where
  "float_eq a b = (case (a, b) of (Some x, Some y) \<Rightarrow> x = y | _ \<Rightarrow> False)"

section \<open>Category, delivery and payment views (lines 66-106)\<close>

definition highlight_color :: string where
  "highlight_color = ''#72BCD4''"

definition base_color :: string where
  "base_color = ''#D3D3D3''"

definition top_categories :: "dataframe \<Rightarrow> (string \<times> nat) list" where
  "top_categories df =
     nlargest_by 5 (\<lambda>(k, c). Some (int c))
       (value_counts (map product_category_name_english df))"

definition colors_tab1 :: "dataframe \<Rightarrow> string list" where
  "colors_tab1 df =
     map (\<lambda>i. if i = 0 then highlight_color else base_color) [0..<length (top_categories df)]"

definition avg_delivery_time :: "dataframe \<Rightarrow> (string \<times> float) list" where
  "avg_delivery_time df =
     nlargest_by 5 snd
       (map (\<lambda>(k, rows). (k, series_mean (map delivery_time rows))) (groupby customer_state df))"

definition colors_tab2 :: "dataframe \<Rightarrow> string list" where
  "colors_tab2 df =
     map (\<lambda>i. if i = 0 then highlight_color else base_color) [0..<length (avg_delivery_time df)]"

definition cancellation_rate :: "dataframe \<Rightarrow> (string \<times> float) list" where
  "cancellation_rate df =
     series_mul
       (series_truediv
          (group_sizes payment_type (filter (\<lambda>r. order_status r = ''canceled'') df))
          (group_sizes payment_type df))
       100"

definition max_value :: "dataframe \<Rightarrow> float" where
  "max_value df = series_max (map snd (cancellation_rate df))"

definition colors_tab3 :: "dataframe \<Rightarrow> string list" where
  "colors_tab3 df =
     map (\<lambda>val. if float_eq val (max_value df) then highlight_color else base_color)
         (map snd (cancellation_rate df))"

section \<open>RFM analysis (lines 121-151)\<close>

record rfm_row =
  rfm_customer_id :: string
  max_order_timestamp :: "int option"
  frequency :: nat
  monetary :: rat
  recency :: "int option"

definition recent_date :: "dataframe \<Rightarrow> int option" where
  "recent_date df = series_max (map (\<lambda>r. Some (order_purchase_timestamp r)) df)"

text \<open>
  \<^verbatim>\<open>(recent_date - max_order_timestamp).dt.days\<close>: the whole days of the difference,
  rounded down; NaN when either instant is NaT.
\<close>

definition timedelta_days :: "int option \<Rightarrow> int option \<Rightarrow> int option" where
  "timedelta_days a b =
     (case (a, b) of (Some x, Some y) \<Rightarrow> Some ((x - y) div ns_per_day) | _ \<Rightarrow> None)"

definition rfm_df :: "dataframe \<Rightarrow> rfm_row list" where
  "rfm_df df =
     map (\<lambda>(k, rows).
            let m = series_max (map (\<lambda>r. Some (order_purchase_timestamp r)) rows)
            in \<lparr>rfm_customer_id = k,
                max_order_timestamp = m,
                frequency = length (unique (map order_id rows)),
                monetary = series_sum (map payment_value rows),
                recency = timedelta_days (recent_date df) m\<rparr>)
         (groupby customer_id df)"









section \<open>The example of the specification\<close>

text \<open>
  Order A of customer X on 2020-01-01 (day 18262 since the epoch) for 50 and order B of
  the same customer on 2020-01-10 (day 18271) for 30, both in category toys, the first
  delivered and the second canceled. The example leaves state, delivery time and payment
  type open, so they are parameters.
\<close>

definition example_df ::
  "string \<Rightarrow> rat \<Rightarrow> string \<Rightarrow> string \<Rightarrow> rat \<Rightarrow> string \<Rightarrow> dataframe" where
  "example_df s1 t1 p1 s2 t2 p2 =
    [\<lparr>order_id = ''A'', customer_id = ''X'', order_purchase_timestamp = 18262 * ns_per_day,
      payment_value = 50, product_category_name_english = ''toys'', customer_state = s1,
      delivery_time = t1, order_status = ''delivered'', payment_type = p1\<rparr>,
     \<lparr>order_id = ''B'', customer_id = ''X'', order_purchase_timestamp = 18271 * ns_per_day,
      payment_value = 30, product_category_name_english = ''toys'', customer_state = s2,
      delivery_time = t2, order_status = ''canceled'', payment_type = p2\<rparr>]"

text \<open>
  Two customers on the same day, an hour apart (11:00 and 12:00 of day 18271), with
  different categories and states, the same delivery time, both orders canceled.
\<close>

definition tie_df :: dataframe where
  "tie_df =
    [\<lparr>order_id = ''O1'', customer_id = ''X'',
      order_purchase_timestamp = 18271 * ns_per_day + 39600000000000,
      payment_value = 10, product_category_name_english = ''toys'', customer_state = ''SP'',
      delivery_time = 4, order_status = ''canceled'', payment_type = ''boleto''\<rparr>,
     \<lparr>order_id = ''O2'', customer_id = ''Y'',
      order_purchase_timestamp = 18271 * ns_per_day + 43200000000000,
      payment_value = 20, product_category_name_english = ''books'', customer_state = ''RJ'',
      delivery_time = 4, order_status = ''canceled'', payment_type = ''voucher''\<rparr>]"

text \<open>The same two rows and two card orders of a third customer, one of them canceled.\<close>

definition payment_df :: dataframe where
  "payment_df = tie_df @
    [\<lparr>order_id = ''O3'', customer_id = ''Z'', order_purchase_timestamp = 18270 * ns_per_day,
      payment_value = 5, product_category_name_english = ''toys'', customer_state = ''SP'',
      delivery_time = 2, order_status = ''delivered'', payment_type = ''credit_card''\<rparr>,
     \<lparr>order_id = ''O4'', customer_id = ''Z'', order_purchase_timestamp = 18269 * ns_per_day,
      payment_value = 7, product_category_name_english = ''toys'', customer_state = ''SP'',
      delivery_time = 2, order_status = ''canceled'', payment_type = ''credit_card''\<rparr>]"

text \<open>Two delivered orders with different payment types: a subset without a canceled row.\<close>

definition delivered_df :: dataframe where
  "delivered_df =
    [\<lparr>order_id = ''D1'', customer_id = ''X'', order_purchase_timestamp = 18262 * ns_per_day,
      payment_value = 50, product_category_name_english = ''toys'', customer_state = ''SP'',
      delivery_time = 3, order_status = ''delivered'', payment_type = ''boleto''\<rparr>,
     \<lparr>order_id = ''D2'', customer_id = ''Y'', order_purchase_timestamp = 18271 * ns_per_day,
      payment_value = 30, product_category_name_english = ''toys'', customer_state = ''SP'',
      delivery_time = 3, order_status = ''delivered'', payment_type = ''voucher''\<rparr>]"

section \<open>Basic facts\<close>

lemma boolean_index_map: "boolean_index xs (map P xs) = filter P xs"
  unfolding boolean_index_def by (induction xs) auto

lemma filtered_df_pair:
  "filtered_df [lo, hi] all_df =
     Inr (filter (\<lambda>r. lo \<le> dt_date (order_purchase_timestamp r) \<and>
                       dt_date (order_purchase_timestamp r) \<le> hi) all_df)"
  by (simp add: filtered_df_def date_mask_def boolean_index_map)

lemma set_unique: "set (unique xs) = set xs"
  by (induction xs rule: unique.induct) auto

lemma distinct_unique: "distinct (unique xs)"
  by (induction xs rule: unique.induct) (auto simp: set_unique)

lemma length_unique: "length (unique xs) = card (set xs)"
  using distinct_card[OF distinct_unique, of xs] by (simp add: set_unique)

lemma length_unique_mono: "set xs \<subseteq> set ys \<Longrightarrow> length (unique xs) \<le> length (unique ys)"
  by (simp add: length_unique card_mono)

section \<open>Metrics on no rows\<close>

text \<open>
  C1 (as the code has it): on a filtered subset of zero rows Total Orders, Total Revenue
  and Unique Customers are 0, and Average Order Value is NaN, not 0; every metric is a
  value (nothing raises). Average Order Value is NaN exactly when there are no rows.
\<close>

theorem metrics_of_no_rows:
  "total_orders [] = 0 \<and> total_revenue [] = 0 \<and> unique_customers [] = 0 \<and>
   average_order_value [] = None \<and> (average_order_value df = None \<longleftrightarrow> df = [])"
  by (simp add: total_orders_def total_revenue_def unique_customers_def
      average_order_value_def series_sum_def series_mean_def)

text \<open>C1 as stated fails: the Average Order Value of zero rows is not 0.\<close>

theorem average_order_value_empty_not_zero: "average_order_value [] \<noteq> Some 0"
  by (simp add: average_order_value_def series_mean_def)

section \<open>The filter keeps exactly the rows in range\<close>

text \<open>
  C2: for a pair of bounds the filter returns, in their order and with their
  multiplicity, exactly the rows whose purchase date \<open>d\<close> has \<open>lo \<le> d \<le> hi\<close>.
\<close>

theorem filter_layer_exact:
  "\<exists>out. filtered_df [lo, hi] all_df = Inr out \<and>
     out = filter (\<lambda>r. lo \<le> dt_date (order_purchase_timestamp r) \<and>
                        dt_date (order_purchase_timestamp r) \<le> hi) all_df \<and>
     set out = {r \<in> set all_df. lo \<le> dt_date (order_purchase_timestamp r) \<and>
                                  dt_date (order_purchase_timestamp r) \<le> hi}"
  by (simp add: filtered_df_pair)

section \<open>A wider range never lowers the counts\<close>

text \<open>
  C6: when the dates of the range \<open>[lo1, hi1]\<close> all lie in the range \<open>[lo2, hi2]\<close>, Total
  Orders and Unique Customers of the subset filtered by the second range are at least
  those of the subset filtered by the first.
\<close>

theorem filter_monotonic:
  assumes "{lo1..hi1} \<subseteq> {lo2..hi2}"
  shows "\<exists>f1 f2. filtered_df [lo1, hi1] all_df = Inr f1 \<and>
           filtered_df [lo2, hi2] all_df = Inr f2 \<and>
           total_orders f1 \<le> total_orders f2 \<and> unique_customers f1 \<le> unique_customers f2"
proof -
  let ?P = "\<lambda>lo hi r. lo \<le> dt_date (order_purchase_timestamp r) \<and>
                       dt_date (order_purchase_timestamp r) \<le> hi"
  have sub: "set (filter (?P lo1 hi1) all_df) \<subseteq> set (filter (?P lo2 hi2) all_df)"
    using assms by auto
  have "set (map f (filter (?P lo1 hi1) all_df)) \<subseteq> set (map f (filter (?P lo2 hi2) all_df))"
    for f :: "order_row \<Rightarrow> string"
    using sub by auto
  then show ?thesis
    unfolding filtered_df_pair total_orders_def unique_customers_def
    by (simp add: length_unique_mono del: set_map set_filter)
qed

theorem filter_monotonic_witness:
  "{18262..18262::int} \<subseteq> {18262..18271} \<and>
   (\<exists>f1 f2.
      filtered_df [18262, 18262] (example_df ''SP'' 3 ''boleto'' ''RJ'' 4 ''voucher'') = Inr f1 \<and>
      filtered_df [18262, 18271] (example_df ''SP'' 3 ''boleto'' ''RJ'' 4 ''voucher'') = Inr f2 \<and>
      total_orders f1 \<le> total_orders f2 \<and> unique_customers f1 \<le> unique_customers f2)"
  using filter_monotonic [of 18262 18262 18262 18271] by simp

section \<open>The example of the specification, computed\<close>

text \<open>
  C7: on the two example rows, filtered to the full range of their dates, Total Orders
  is 2, Unique Customers is 1, Total Revenue is 80, Average Order Value is 40, and the
  RFM record of customer X has recency 0, frequency 2 and monetary 80.
\<close>

theorem example_metrics_and_rfm:
  "filtered_df [18262, 18271] (example_df s1 t1 p1 s2 t2 p2) = Inr (example_df s1 t1 p1 s2 t2 p2) \<and>
   total_orders (example_df s1 t1 p1 s2 t2 p2) = 2 \<and>
   unique_customers (example_df s1 t1 p1 s2 t2 p2) = 1 \<and>
   total_revenue (example_df s1 t1 p1 s2 t2 p2) = 80 \<and>
   average_order_value (example_df s1 t1 p1 s2 t2 p2) = Some 40 \<and>
   rfm_df (example_df s1 t1 p1 s2 t2 p2) =
     [\<lparr>rfm_customer_id = ''X'', max_order_timestamp = Some (18271 * ns_per_day),
       frequency = 2, monetary = 80, recency = Some 0\<rparr>]"
  by (simp add: filtered_df_pair example_df_def dt_date_def ns_per_day_def total_orders_def
      unique_customers_def total_revenue_def average_order_value_def series_sum_def
      series_mean_def rfm_df_def groupby_def series_max_def recent_date_def
      timedelta_days_def)

section \<open>Highlighting in the category and delivery views\<close>

lemma length_nlargest_by: "length (nlargest_by n key xs) = min n (length xs)"
  using sum_length_filter_compl[of "\<lambda>x. key x \<noteq> None" xs] by (simp add: nlargest_by_def)

lemma length_nsmallest_by: "length (nsmallest_by n key xs) = min n (length xs)"
  using sum_length_filter_compl[of "\<lambda>x. key x \<noteq> None" xs] by (simp add: nsmallest_by_def)

lemma colors_first:
  "0 < n \<Longrightarrow> map (\<lambda>i. if i = 0 then h else b) [0..<n] = h # replicate (n - 1) (b::string)"
  by (cases n) (simp_all add: map_upt_Suc map_replicate_trivial del: upt_Suc)

lemma length_groupby_pos: "df \<noteq> [] \<Longrightarrow> 0 < length (groupby key df)"
  by (cases df) (simp_all add: groupby_def)

lemma length_value_counts_pos: "vs \<noteq> [] \<Longrightarrow> 0 < length (value_counts vs)"
  by (cases vs) (simp_all add: value_counts_def)

text \<open>
  C10: on a non-empty filtered subset the category chart and the delivery chart each
  have at least one bar; the bar at position 0 has the highlight colour and every other
  bar the base colour, whatever the values of the bars (so also when several are equal
  to the largest); the two colours differ.
\<close>

theorem first_bar_only_highlighted:
  assumes "df \<noteq> []"
  shows "0 < length (top_categories df) \<and>
         colors_tab1 df = highlight_color # replicate (length (top_categories df) - 1) base_color \<and>
         0 < length (avg_delivery_time df) \<and>
         colors_tab2 df = highlight_color # replicate (length (avg_delivery_time df) - 1) base_color \<and>
         highlight_color \<noteq> base_color"
proof -
  have 1: "0 < length (top_categories df)"
    using assms length_value_counts_pos[of "map product_category_name_english df"]
    by (simp add: top_categories_def length_nlargest_by)
  have 2: "0 < length (avg_delivery_time df)"
    using assms length_groupby_pos[of df customer_state]
    by (simp add: avg_delivery_time_def length_nlargest_by)
  show ?thesis
    using 1 2
    by (simp add: colors_tab1_def colors_tab2_def colors_first highlight_color_def base_color_def)
qed

text \<open>
  On \<open>tie_df\<close> both categories occur once and both states have mean delivery time 4:
  the first bar alone is highlighted in each chart.
\<close>

theorem first_bar_only_highlighted_witness:
  "tie_df \<noteq> [] \<and>
   map snd (top_categories tie_df) = [1, 1] \<and>
   colors_tab1 tie_df = [highlight_color, base_color] \<and>
   map snd (avg_delivery_time tie_df) = [Some 4, Some 4] \<and>
   colors_tab2 tie_df = [highlight_color, base_color]"
proof -
  have ne: "tie_df \<noteq> []"
    by (simp add: tie_df_def)
  have c: "map snd (top_categories tie_df) = [1, 1]"
    by code_simp
  have d: "map snd (avg_delivery_time tie_df) = [Some 4, Some 4]"
    by code_simp
  have "length (top_categories tie_df) = 2" "length (avg_delivery_time tie_df) = 2"
    using c d by (metis length_map length_Cons list.size(3) numeral_2_eq_2)+
  then show ?thesis
    using first_bar_only_highlighted [OF ne] ne c d by (simp add: numeral_2_eq_2)
qed

section \<open>Recency\<close>

lemma fold_max_Max: "fold max xs (x::'a::linorder) = Max (set (x # xs))"
  by (simp only: Max.set_eq_fold)

lemma series_max_Some:
  "xs \<noteq> [] \<Longrightarrow> series_max (map Some xs) = Some (Max (set xs))"
  by (cases xs) (simp_all add: series_max_def List.map_filter_def comp_def fold_max_Max)

lemma ns_per_day_pos: "0 < ns_per_day"
  by (simp add: ns_per_day_def)

lemma recent_date_Max:
  "df \<noteq> [] \<Longrightarrow> recent_date df = Some (Max (order_purchase_timestamp ` set df))"
  using series_max_Some[of "map order_purchase_timestamp df"]
  by (simp add: recent_date_def comp_def)

lemma rfm_df_rows:
  "rfm_df df =
     map (\<lambda>k. \<lparr>rfm_customer_id = k,
               max_order_timestamp =
                 series_max (map (\<lambda>r. Some (order_purchase_timestamp r))
                                 (filter (\<lambda>r. customer_id r = k) df)),
               frequency = length (unique (map order_id (filter (\<lambda>r. customer_id r = k) df))),
               monetary = series_sum (map payment_value (filter (\<lambda>r. customer_id r = k) df)),
               recency = timedelta_days (recent_date df)
                 (series_max (map (\<lambda>r. Some (order_purchase_timestamp r))
                                  (filter (\<lambda>r. customer_id r = k) df)))\<rparr>)
         (sort (unique (map customer_id df)))"
  by (simp add: rfm_df_def groupby_def comp_def Let_def)

lemma group_max:
  assumes "x \<in> set df"
  shows "series_max (map (\<lambda>r. Some (order_purchase_timestamp r))
                         (filter (\<lambda>r. customer_id r = customer_id x) df)) =
         Some (Max (order_purchase_timestamp ` {r \<in> set df. customer_id r = customer_id x}))"
proof -
  have "filter (\<lambda>r. customer_id r = customer_id x) df \<noteq> []"
    using assms by (auto simp: filter_empty_conv)
  then show ?thesis
    using series_max_Some[of "map order_purchase_timestamp (filter (\<lambda>r. customer_id r = customer_id x) df)"]
    by (simp add: comp_def)
qed

lemma recency_of_customer:
  assumes "x \<in> set df"
  shows "\<exists>r\<in>set (rfm_df df). rfm_customer_id r = customer_id x \<and>
           recency r = Some ((Max (order_purchase_timestamp ` set df) -
              Max (order_purchase_timestamp ` {r \<in> set df. customer_id r = customer_id x})) div ns_per_day)"
proof -
  have ne: "df \<noteq> []" using assms by auto
  have k: "customer_id x \<in> set (sort (unique (map customer_id df)))"
    using assms by (simp add: set_unique)
  show ?thesis
    unfolding rfm_df_rows
    using k by (auto simp: group_max[OF assms] recent_date_Max[OF ne] timedelta_days_def intro!: bexI[of _ "customer_id x"])
qed

lemma rfm_row_customer:
  assumes "r \<in> set (rfm_df df)"
  shows "\<exists>x\<in>set df. rfm_customer_id r = customer_id x \<and>
           recency r = Some ((Max (order_purchase_timestamp ` set df) -
              Max (order_purchase_timestamp ` {r \<in> set df. customer_id r = customer_id x})) div ns_per_day)"
proof -
  from assms obtain k where k: "k \<in> set (sort (unique (map customer_id df)))"
    and r: "r = \<lparr>rfm_customer_id = k,
               max_order_timestamp =
                 series_max (map (\<lambda>r. Some (order_purchase_timestamp r))
                                 (filter (\<lambda>r. customer_id r = k) df)),
               frequency = length (unique (map order_id (filter (\<lambda>r. customer_id r = k) df))),
               monetary = series_sum (map payment_value (filter (\<lambda>r. customer_id r = k) df)),
               recency = timedelta_days (recent_date df)
                 (series_max (map (\<lambda>r. Some (order_purchase_timestamp r))
                                  (filter (\<lambda>r. customer_id r = k) df)))\<rparr>"
    unfolding rfm_df_rows by auto
  from k obtain x where x: "x \<in> set df" "customer_id x = k"
    by (auto simp: set_unique)
  have ne: "df \<noteq> []" using x by auto
  show ?thesis
    using x r by (auto simp: group_max[OF x(1)] recent_date_Max[OF ne] timedelta_days_def intro!: bexI[of _ x])
qed

text \<open>
  C4 (as the code has it): on a non-empty filtered subset every customer's recency is a
  number of whole days that is at least 0, and the customer of every row that carries
  the latest purchase timestamp of the subset has recency 0; so at least one customer
  has recency 0.
\<close>

theorem recency_nonneg_and_latest_zero:
  assumes "df \<noteq> []"
  shows "(\<forall>r\<in>set (rfm_df df). \<exists>d. recency r = Some d \<and> 0 \<le> d) \<and>
         (\<forall>x\<in>set df. recent_date df = Some (order_purchase_timestamp x) \<longrightarrow>
            (\<exists>r\<in>set (rfm_df df). rfm_customer_id r = customer_id x \<and> recency r = Some 0)) \<and>
         (\<exists>r\<in>set (rfm_df df). recency r = Some 0)"
proof -
  let ?M = "Max (order_purchase_timestamp ` set df)"
  have le: "Max (order_purchase_timestamp ` {r \<in> set df. customer_id r = customer_id x}) \<le> ?M"
    if "x \<in> set df" for x
    using that by (intro Max_mono) auto
  have a: "\<forall>r\<in>set (rfm_df df). \<exists>d. recency r = Some d \<and> 0 \<le> d"
  proof
    fix r assume "r \<in> set (rfm_df df)"
    from rfm_row_customer[OF this] obtain x where x: "x \<in> set df"
      and r: "recency r = Some ((?M -
              Max (order_purchase_timestamp ` {r \<in> set df. customer_id r = customer_id x})) div ns_per_day)"
      by blast
    show "\<exists>d. recency r = Some d \<and> 0 \<le> d"
      using r le[OF x] ns_per_day_pos by (simp add: pos_imp_zdiv_nonneg_iff)
  qed
  have b: "\<exists>r\<in>set (rfm_df df). rfm_customer_id r = customer_id x \<and> recency r = Some 0"
    if x: "x \<in> set df" and top: "recent_date df = Some (order_purchase_timestamp x)" for x
  proof -
    have M: "order_purchase_timestamp x = ?M"
      using top recent_date_Max[OF assms] by simp
    have "order_purchase_timestamp x \<le> Max (order_purchase_timestamp ` {r \<in> set df. customer_id r = customer_id x})"
      using x by (intro Max_ge) auto
    with le[OF x] M have "Max (order_purchase_timestamp ` {r \<in> set df. customer_id r = customer_id x}) = ?M"
      by simp
    with recency_of_customer[OF x] show ?thesis by simp
  qed
  have "?M \<in> order_purchase_timestamp ` set df"
    using assms by (intro Max_in) auto
  then obtain x where "x \<in> set df" "recent_date df = Some (order_purchase_timestamp x)"
    using recent_date_Max[OF assms] by auto
  with b have c: "\<exists>r\<in>set (rfm_df df). recency r = Some 0" by blast
  from a b c show ?thesis by blast
qed

theorem recency_nonneg_and_latest_zero_witness:
  "tie_df \<noteq> [] \<and> recent_date tie_df = Some (18271 * ns_per_day + 43200000000000) \<and>
   map (\<lambda>r. (rfm_customer_id r, recency r)) (rfm_df tie_df) = [(''X'', Some 0), (''Y'', Some 0)]"
proof -
  have ne: "tie_df \<noteq> []"
    by (simp add: tie_df_def)
  have d: "recent_date tie_df = Some (18271 * ns_per_day + 43200000000000)"
    by code_simp
  have e: "map (\<lambda>r. (rfm_customer_id r, recency r)) (rfm_df tie_df) =
           [(''X'', Some 0), (''Y'', Some 0)]"
    by code_simp
  show ?thesis
    using recency_nonneg_and_latest_zero [OF ne] ne d e by blast
qed

text \<open>
  C4 as stated fails: in \<open>tie_df\<close> customer X bought an hour before customer Y, whose
  purchase is the latest, and both have recency 0.
\<close>

theorem two_customers_recency_zero:
  "map rfm_customer_id (rfm_df tie_df) = [''X'', ''Y''] \<and>
   map recency (rfm_df tie_df) = [Some 0, Some 0]"
  by code_simp

section \<open>Highlighting in the payment view\<close>

lemma set_map_filter_id: "set (List.map_filter id vs) = {v. Some v \<in> set vs}"
  by (induction vs) (auto simp: List.map_filter_simps split: option.splits)

lemma series_max_eq:
  "series_max vs = (if {v. Some v \<in> set vs} = {} then None else Some (Max {v. Some v \<in> set vs}))"
proof (cases "List.map_filter id vs")
  case Nil
  then show ?thesis
    using set_map_filter_id[of vs] by (simp add: series_max_def)
next
  case (Cons x xs)
  then have "{v. Some v \<in> set vs} = set (x # xs)"
    using set_map_filter_id[of vs] by simp
  then show ?thesis
    using Cons by (simp add: series_max_def fold_max_Max)
qed

lemma series_max_attained: "series_max vs = Some m \<Longrightarrow> Some m \<in> set vs"
proof -
  assume a: "series_max vs = Some m"
  have fin: "finite {v. Some v \<in> set vs}"
    using set_map_filter_id[of vs, symmetric] by simp
  from a have ne: "{v. Some v \<in> set vs} \<noteq> {}" and m: "m = Max {v. Some v \<in> set vs}"
    by (auto simp: series_max_eq split: if_splits)
  from Max_in[OF fin ne] m show ?thesis by simp
qed

lemma series_max_upper: "Some v \<in> set vs \<Longrightarrow> \<exists>m. series_max vs = Some m \<and> v \<le> m"
proof -
  assume a: "Some v \<in> set vs"
  have fin: "finite {v. Some v \<in> set vs}"
    using set_map_filter_id[of vs, symmetric] by simp
  from a have "v \<le> Max {v. Some v \<in> set vs}"
    using fin by (intro Max_ge) auto
  with a show ?thesis by (auto simp: series_max_eq)
qed

text \<open>
  Bars whose rate is a number: such a rate \<open>v\<close> is compared with \<open>max_value\<close>, which is
  then a number \<open>m\<close>, the largest of the rates that are numbers. If \<open>v = m\<close> the bar has the
  highlight colour, whichever position it has (so every such bar at the maximum is
  highlighted); if \<open>v < m\<close> it has the base colour. The two colours differ.
\<close>

lemma payment_highlight_all_maxima:
  assumes "i < length (cancellation_rate df)" and "snd (cancellation_rate df ! i) = Some v"
  shows "\<exists>m. max_value df = Some m \<and> Some m \<in> snd ` set (cancellation_rate df) \<and>
           (\<forall>w. Some w \<in> snd ` set (cancellation_rate df) \<longrightarrow> w \<le> m) \<and>
           (v = m \<longrightarrow> colors_tab3 df ! i = highlight_color) \<and>
           (v < m \<longrightarrow> colors_tab3 df ! i = base_color) \<and>
           highlight_color \<noteq> base_color"
proof -
  let ?vs = "map snd (cancellation_rate df)"
  have "Some v \<in> set ?vs"
    using assms by (metis length_map nth_map nth_mem)
  from series_max_upper[OF this] obtain m where m: "max_value df = Some m" "v \<le> m"
    by (auto simp: max_value_def)
  have att: "Some m \<in> snd ` set (cancellation_rate df)"
    using series_max_attained[of ?vs m] m by (simp add: max_value_def)
  have ub: "w \<le> m" if "Some w \<in> snd ` set (cancellation_rate df)" for w
  proof -
    from that have "Some w \<in> set ?vs" by simp
    from series_max_upper[OF this] m show ?thesis by (simp add: max_value_def)
  qed
  have col: "colors_tab3 df ! i = (if v = m then highlight_color else base_color)"
    using assms m by (simp add: colors_tab3_def float_eq_def)
  show ?thesis
    using m att ub col by (auto simp: highlight_color_def base_color_def)
qed

text \<open>
  On \<open>payment_df\<close> boleto and voucher are both at 100 and the card at 50: the two
  bars at the maximum are highlighted, the first and the last.
\<close>

lemma payment_highlight_all_maxima_example:
  "0 < length (cancellation_rate payment_df) \<and>
   cancellation_rate payment_df = [(''boleto'', Some 100), (''credit_card'', Some 50), (''voucher'', Some 100)] \<and>
   max_value payment_df = Some 100 \<and>
   colors_tab3 payment_df = [highlight_color, base_color, highlight_color]"
proof -
  have r: "cancellation_rate payment_df = [(''boleto'', Some 100), (''credit_card'', Some 50), (''voucher'', Some 100)]"
    by code_simp
  have c: "colors_tab3 payment_df = [highlight_color, base_color, highlight_color]"
    by code_simp
  have 1: "0 < length (cancellation_rate payment_df)" and 2: "snd (cancellation_rate payment_df ! 0) = Some 100"
    by (simp_all add: r)
  show ?thesis
    using payment_highlight_all_maxima [OF 1 2] r c by (auto simp: max_value_def)
qed

section \<open>Cancellation rate of a payment type without cancellations\<close>

text \<open>
  What the division computes in general: the chart has one bar for each payment type
  that occurs in the filtered subset (a type with no rows has no bar); the rate of a
  type with at least one canceled row is its canceled rows over its rows, times 100,
  and the rate of a type with rows but no canceled row is NaN.
\<close>

lemma group_sizes_eq:
  "group_sizes key df = map (\<lambda>k. (k, length (filter (\<lambda>r. key r = k) df))) (sort (unique (map key df)))"
  by (simp add: group_sizes_def groupby_def comp_def)

lemma map_of_group_sizes:
  "map_of (group_sizes key df) k =
     (if k \<in> key ` set df then Some (length (filter (\<lambda>r. key r = k) df)) else None)"
  by (simp add: group_sizes_eq map_of_map_restrict restrict_map_def set_unique)

lemma index_union_subset:
  assumes "sorted a" "distinct a" "sorted b" "distinct b" "set a \<subseteq> set b"
  shows "index_union a b = b"
proof (cases "a = b")
  case True
  then show ?thesis by (simp add: index_union_def)
next
  case False
  have "set (sort (unique (a @ b))) = set b"
    using assms(5) by (auto simp: set_unique)
  moreover have "sorted (sort (unique (a @ b)))" "distinct (sort (unique (a @ b)))"
    by (simp_all add: distinct_unique)
  ultimately have "sort (unique (a @ b)) = b"
    using assms(3,4) by (intro sorted_distinct_set_unique) auto
  then show ?thesis using False by (simp add: index_union_def)
qed

lemma cancellation_rate_eq:
  "cancellation_rate df =
     map (\<lambda>k. (k, if \<not> (\<exists>r\<in>set df. order_status r = ''canceled'' \<and> payment_type r = k) then None
                  else Some (of_nat (length (filter (\<lambda>r. payment_type r = k)
                                       (filter (\<lambda>r. order_status r = ''canceled'') df)))
                             / of_nat (length (filter (\<lambda>r. payment_type r = k) df)) * 100)))
         (sort (unique (map payment_type df)))"
proof -
  let ?c = "filter (\<lambda>r. order_status r = ''canceled'') df"
  let ?a = "group_sizes payment_type ?c" and ?b = "group_sizes payment_type df"
  have idx: "index_union (map fst ?a) (map fst ?b) = sort (unique (map payment_type df))"
    using index_union_subset[of "sort (unique (map payment_type ?c))" "sort (unique (map payment_type df))"]
    by (auto simp: group_sizes_eq comp_def distinct_unique set_unique)
  have pos: "length (filter (\<lambda>r. payment_type r = k) df) \<noteq> 0" if "k \<in> payment_type ` set df" for k
    using that by (auto simp: filter_empty_conv)
  show ?thesis
    unfolding cancellation_rate_def series_mul_def series_truediv_def idx map_map comp_def
    by (rule map_cong[OF refl])
       (auto simp: map_of_group_sizes set_unique float_div_def filter_empty_conv image_iff)
qed

lemma cancellation_rate_labels:
  "set (map fst (cancellation_rate df)) = payment_type ` set df"
  by (simp add: cancellation_rate_eq comp_def set_unique)

text \<open>
  C3: the rate of a payment type is its canceled rows over its rows, times 100. On the
  example rows with the delivered order paid by card and the canceled one by boleto,
  the card has one row and no canceled row: the claimed rate is 0, the computed rate is
  NaN, since the series of canceled counts has no label for the card.
\<close>

theorem cancellation_rate_nan_without_cancellation:
  "cancellation_rate (example_df ''SP'' 3 ''credit_card'' ''SP'' 3 ''boleto'') =
     [(''boleto'', Some 100), (''credit_card'', None)]"
  by code_simp

section \<open>Highlighting on a subset without a canceled row\<close>

text \<open>
  A bar whose rate is NaN always has the base colour. When no row of the filtered subset
  is canceled every rate is NaN, \<open>max_value\<close> is NaN and no bar is highlighted.
\<close>

lemma nan_bar_base:
  "i < length (cancellation_rate df) \<Longrightarrow> snd (cancellation_rate df ! i) = None \<Longrightarrow>
   colors_tab3 df ! i = base_color"
  by (simp add: colors_tab3_def float_eq_def)

lemma no_canceled_row_rates:
  assumes "\<forall>r\<in>set df. order_status r \<noteq> ''canceled''"
  shows "map snd (cancellation_rate df) = replicate (length (cancellation_rate df)) None"
proof -
  have "map snd (cancellation_rate df) = map (\<lambda>k. None) (sort (unique (map payment_type df)))"
    unfolding cancellation_rate_eq map_map comp_def
    by (rule map_cong[OF refl]) (use assms in auto)
  then show ?thesis
    by (metis length_map map_replicate_const)
qed

lemma no_canceled_row_no_highlight:
  assumes "\<forall>r\<in>set df. order_status r \<noteq> ''canceled''"
  shows "max_value df = None \<and>
         colors_tab3 df = replicate (length (cancellation_rate df)) base_color"
proof -
  note r = no_canceled_row_rates[OF assms]
  have m: "max_value df = None"
    unfolding max_value_def r by (simp add: series_max_eq)
  have "colors_tab3 df = replicate (length (cancellation_rate df)) base_color"
    unfolding colors_tab3_def r by (simp add: float_eq_def)
  then show ?thesis
    using m by simp
qed

text \<open>
  C5: every payment type whose cancellation rate equals the maximum rate is highlighted.
  On \<open>delivered_df\<close> boleto and voucher each have one row and no canceled row, so by the
  formula of the rate both are at 0, the maximum, and both are to be highlighted. The
  code gives both the rate NaN (the missing label of the canceled counts, as for C3),
  \<open>max_value\<close> is NaN, and both bars have the base colour.
\<close>

theorem payment_no_highlight_without_cancellation:
  "cancellation_rate delivered_df = [(''boleto'', None), (''voucher'', None)] \<and>
   max_value delivered_df = None \<and>
   colors_tab3 delivered_df = [base_color, base_color] \<and>
   highlight_color \<noteq> base_color"
proof -
  have a: "cancellation_rate delivered_df = [(''boleto'', None), (''voucher'', None)]"
    by code_simp
  have b: "max_value delivered_df = None"
    by (simp add: max_value_def a series_max_def List.map_filter_def)
  have c: "colors_tab3 delivered_df = [base_color, base_color]"
    by (simp add: colors_tab3_def a b float_eq_def)
  show ?thesis
    using a b c by (simp add: highlight_color_def base_color_def)
qed

section \<open>Ties in the RFM rankings\<close>







end
